theory Spec2Isabelle
  imports Complex_Main
begin

section \<open>Python values used by the overview page\<close>

text \<open>
  The overview page (\<^verbatim>\<open>_app/overview.py\<close>) reads already parsed log blocks and
  draws Streamlit widgets. The model below keeps the values that flow through it:
  \<^verbatim>\<open>None\<close>, strings, integers and floats. A float is kept as its sign and the exact
  rational magnitude of the binary64 number, or as an infinity or a NaN; the sign is
  separate because \<^verbatim>\<open>-0.0\<close> prints its sign.
\<close>

datatype pyfloat = Finite bool rat | Infinity bool | NaN

datatype pyval = PNone | PStr string | PInt int | PFloat pyfloat

text \<open>
  The exceptions that the code of the page can meet. \<open>KeyError\<close> carries the text
  that \<^verbatim>\<open>str(ke)\<close> gives, which for a missing dictionary key is the \<^verbatim>\<open>repr\<close> of
  the key.
\<close>

datatype exn = KeyError string | ValueError | TypeError | OverflowError

subsection \<open>Rounding to binary64\<close>

function bit_length :: "int \<Rightarrow> int" where
  "bit_length n = (if n \<le> 0 then 0 else 1 + bit_length (n div 2))"
  by pat_completeness auto
termination
  by (relation "measure nat") auto

definition pow2 :: "int \<Rightarrow> rat" where
  "pow2 e = (if 0 \<le> e then 2 ^ nat e else 1 / 2 ^ nat (- e))"

definition round_half_even :: "rat \<Rightarrow> int" where
  "round_half_even q =
     (let f = \<lfloor>q\<rfloor>; r = q - of_int f in
      if r < 1 / 2 then f
      else if 1 / 2 < r then f + 1
      else if even f then f else f + 1)"

text \<open>
  \<open>floor_log2 q\<close> is the \<open>e\<close> with \<open>2 ^ e \<le> q < 2 ^ (e + 1)\<close> for a positive \<open>q\<close>,
  found from the bit lengths of its numerator and denominator.
\<close>

definition floor_log2 :: "rat \<Rightarrow> int" where
  "floor_log2 q =
     (let (a, b) = quotient_of q;
          e0 = bit_length a - bit_length b in
      if pow2 e0 \<le> q then e0 else e0 - 1)"

text \<open>
  Round a non-negative magnitude to the nearest binary64 number, ties to even: 53
  significant bits, the least unit never below \<open>2\<^sup>-\<^sup>1\<^sup>0\<^sup>7\<^sup>4\<close>; \<open>None\<close> when the rounded
  magnitude leaves the finite range.
\<close>

definition round_binary64 :: "rat \<Rightarrow> rat option" where
  "round_binary64 q =
     (if q \<le> 0 then Some 0
      else
        let u = max (floor_log2 q - 52) (- 1074);
            v = of_int (round_half_even (q / pow2 u)) * pow2 u in
        if pow2 1024 \<le> v then None else Some v)"

subsection \<open>Fixed-point formatting: \<^verbatim>\<open>f"{x:.3f}"\<close>\<close>

definition digit_char :: "int \<Rightarrow> char" where
  "digit_char d = char_of (48 + d)"

text \<open>The decimal digits of a non-negative integer.\<close>

function show_int :: "int \<Rightarrow> string" where
  "show_int n = (if n < 10 then [digit_char n] else show_int (n div 10) @ [digit_char (n mod 10)])"
  by pat_completeness auto
termination
  by (relation "measure nat") auto

definition zero_pad :: "nat \<Rightarrow> string \<Rightarrow> string" where
  "zero_pad w s = replicate (w - length s) CHR ''0'' @ s"

text \<open>
  \<^verbatim>\<open>format(x, ".df")\<close>: the exact value of the float rounded to \<open>d\<close> decimals, ties to
  even, a minus sign whenever the sign bit is set; \<^verbatim>\<open>inf\<close>, \<^verbatim>\<open>-inf\<close> and
  \<^verbatim>\<open>nan\<close> for the special values.
\<close>

definition format_fixed :: "nat \<Rightarrow> pyfloat \<Rightarrow> string" where
  "format_fixed d x =
     (case x of
        NaN \<Rightarrow> ''nan''
      | Infinity neg \<Rightarrow> (if neg then ''-inf'' else ''inf'')
      | Finite neg q \<Rightarrow>
          (let n = round_half_even (q * 10 ^ d) in
           (if neg then ''-'' else '''') @ show_int (n div 10 ^ d) @
           (if d = 0 then '''' else ''.'' @ zero_pad d (show_int (n mod 10 ^ d)))))"

subsection \<open>\<^verbatim>\<open>float(x)\<close>\<close>

text \<open>
  \<^verbatim>\<open>float\<close> on a string strips white space, allows single underscores between
  digits, and then wants the whole rest to be a decimal literal or one of
  \<^verbatim>\<open>inf\<close>, \<^verbatim>\<open>infinity\<close>, \<^verbatim>\<open>nan\<close> in any letter case, each with an optional sign.
  Characters are read as code points below 256.
\<close>

definition is_space :: "char \<Rightarrow> bool" where
  "is_space c = (of_char c \<in> {9, 10, 11, 12, 13, 32, 133, 160 :: nat})"

definition is_digit :: "char \<Rightarrow> bool" where
  "is_digit c = (48 \<le> (of_char c :: nat) \<and> (of_char c :: nat) \<le> 57)"

definition py_strip :: "string \<Rightarrow> string" where
  "py_strip s = rev (dropWhile is_space (rev (dropWhile is_space s)))"

fun underscores_ok :: "char \<Rightarrow> string \<Rightarrow> bool" where
  "underscores_ok prev [] = (prev \<noteq> CHR ''_'')"
| "underscores_ok prev (c # cs) =
     (if c = CHR ''_'' then is_digit prev \<and> underscores_ok c cs
      else if prev = CHR ''_'' then is_digit c \<and> underscores_ok c cs
      else underscores_ok c cs)"

definition to_lower :: "char \<Rightarrow> char" where
  "to_lower c =
     (if 65 \<le> (of_char c :: nat) \<and> (of_char c :: nat) \<le> 90 then char_of (of_char c + 32 :: nat) else c)"

definition digits_value :: "string \<Rightarrow> int" where
  "digits_value ds = foldl (\<lambda>a c. 10 * a + (of_char c - 48)) 0 ds"

definition pow10 :: "int \<Rightarrow> rat" where
  "pow10 e = (if 0 \<le> e then 10 ^ nat e else 1 / 10 ^ nat (- e))"

definition split_sign :: "string \<Rightarrow> bool \<times> string" where
  "split_sign s =
     (case s of
        [] \<Rightarrow> (False, [])
      | c # cs \<Rightarrow> if c = CHR ''-'' then (True, cs) else if c = CHR ''+'' then (False, cs) else (False, s))"

text \<open>The exponent part: empty, or \<^verbatim>\<open>e\<close> or \<^verbatim>\<open>E\<close>, an optional sign and at least one digit.\<close>

definition parse_exponent :: "string \<Rightarrow> int option" where
  "parse_exponent s =
     (case s of
        [] \<Rightarrow> Some 0
      | c # cs \<Rightarrow>
          if c = CHR ''e'' \<or> c = CHR ''E'' then
            (let (neg, ds) = split_sign cs in
             if ds \<noteq> [] \<and> list_all is_digit ds
             then Some (if neg then - digits_value ds else digits_value ds)
             else None)
          else None)"

definition float_value :: "bool \<Rightarrow> rat \<Rightarrow> pyfloat" where
  "float_value neg q = (case round_binary64 q of None \<Rightarrow> Infinity neg | Some v \<Rightarrow> Finite neg v)"

definition parse_decimal :: "bool \<Rightarrow> string \<Rightarrow> pyfloat option" where
  "parse_decimal neg s =
     (let ip = takeWhile is_digit s;
          r1 = dropWhile is_digit s;
          has_point = (r1 \<noteq> [] \<and> hd r1 = CHR ''.'');
          fp = (if has_point then takeWhile is_digit (tl r1) else []);
          r2 = (if has_point then dropWhile is_digit (tl r1) else r1) in
      if ip = [] \<and> fp = [] then None
      else
        (case parse_exponent r2 of
           None \<Rightarrow> None
         | Some e \<Rightarrow>
             Some (float_value neg (of_int (digits_value (ip @ fp)) * pow10 (e - int (length fp))))))"

definition float_of_string :: "string \<Rightarrow> pyfloat option" where
  "float_of_string s0 =
     (let s = py_strip s0 in
      if \<not> underscores_ok (CHR 0x00) s then None
      else
        (let (neg, body) = split_sign (filter (\<lambda>c. c \<noteq> CHR ''_'') s);
             low = map to_lower body in
         if low = ''inf'' \<or> low = ''infinity'' then Some (Infinity neg)
         else if low = ''nan'' then Some NaN
         else parse_decimal neg body))"

definition float_of_int :: "int \<Rightarrow> exn + pyfloat" where
  "float_of_int n =
     (case round_binary64 (of_int \<bar>n\<bar>) of
        None \<Rightarrow> Inl OverflowError
      | Some v \<Rightarrow> Inr (Finite (n < 0) v))"

text \<open>
  \<^verbatim>\<open>float(x)\<close> for the values a response dictionary can hold: a string is parsed
  (\<^verbatim>\<open>ValueError\<close> when it is not a float literal), an integer is rounded
  (\<^verbatim>\<open>OverflowError\<close> when it is too large), a float is returned as it is, and
  \<^verbatim>\<open>None\<close> is a \<^verbatim>\<open>TypeError\<close>.
\<close>

definition py_float :: "pyval \<Rightarrow> exn + pyfloat" where
  "py_float v =
     (case v of
        PStr s \<Rightarrow> (case float_of_string s of None \<Rightarrow> Inl ValueError | Some f \<Rightarrow> Inr f)
      | PInt n \<Rightarrow> float_of_int n
      | PFloat f \<Rightarrow> Inr f
      | PNone \<Rightarrow> Inl TypeError)"

text \<open>\<^verbatim>\<open>d[k]\<close> on a dictionary: the value, or \<^verbatim>\<open>KeyError(k)\<close>, whose text is \<^verbatim>\<open>'k'\<close>.\<close>

definition getitem :: "(string \<rightharpoonup> pyval) \<Rightarrow> string \<Rightarrow> exn + pyval" where
  "getitem d k =
     (case d k of None \<Rightarrow> Inl (KeyError ([CHR 0x27] @ k @ [CHR 0x27])) | Some v \<Rightarrow> Inr v)"

section \<open>The parsed log blocks\<close>

text \<open>
  The blocks come from the package \<^verbatim>\<open>cpsat_log_parser\<close>, which the page only calls.
  Each block is the record of what its accessors return; a field is named after the
  accessor. \<^verbatim>\<open>get_gap\<close> may raise, since the page guards its call with
  \<^verbatim>\<open>try\<close>; the other accessors return. A block is an ordinary object, so it is
  true in a condition whenever it is not \<^verbatim>\<open>None\<close>.
\<close>

record SolverBlock =
  get_parsed_version :: "int \<times> int \<times> int"
  get_version :: string
  get_number_of_workers :: "int option"
  get_parameters :: "(string \<times> pyval) list"

record InitialModelBlock =
  get_num_variables :: int
  get_num_constraints :: int
  is_optimization :: bool

text \<open>
  \<open>as_plotly\<close> is the chart that \<^verbatim>\<open>as_plotly()\<close> builds from the search log, or
  \<open>None\<close> when the log has no data point to draw. A chart is an object too, and true
  in a condition.
\<close>

record 'fig SearchProgressBlock =
  get_presolve_time :: pyfloat
  as_plotly :: "'fig option"

record ResponseBlock =
  to_dict :: "string \<rightharpoonup> pyval"
  get_gap :: "exn + pyfloat option"

record PresolveSummaryBlock =
  is_solved_by_presolve :: bool

text \<open>
  The parser: its comment lines, and for each block type what
  \<^verbatim>\<open>get_block_of_type_or_none\<close> returns.
\<close>

record 'fig LogParser =
  comments :: "string list"
  solver_block_or_none :: "SolverBlock option"
  initial_model_block_or_none :: "InitialModelBlock option"
  search_progress_block_or_none :: "'fig SearchProgressBlock option"
  response_block_or_none :: "ResponseBlock option"
  presolve_summary_block_or_none :: "PresolveSummaryBlock option"

section \<open>What the page draws\<close>

text \<open>
  Streamlit draws each widget at the moment of the call, so a run of the page is the
  list of its calls in order, and the exception that ended it, if one did. A metric is
  drawn into a container: the page itself or one of the columns made last. The help
  texts of the metrics are constant strings and are left out, and so are the arguments
  that only style a widget: the divider of the heading, the width and the key of the
  chart. \<open>AsPlotly\<close> is not a widget: it records the call of \<^verbatim>\<open>as_plotly()\<close>.
\<close>

datatype container = Page | Col nat

record metric =
  label :: string
  shown :: pyval
  delta :: "string option"
  delta_color :: "string option"

datatype 'fig event =
    Subheader string
  | ChatMessage string string
  | Columns container nat
  | Metric container metric
  | Markdown string
  | Json "(string \<times> pyval) list"
  | AsPlotly
  | PlotlyChart 'fig
  | Info string
  | Error string

type_synonym 'fig run = "'fig event list \<times> exn option"

definition emit :: "'fig event list \<Rightarrow> 'fig run" where
  "emit es = (es, None)"

text \<open>One statement after another: the second runs only when the first did not raise.\<close>

definition and_then :: "'fig run \<Rightarrow> 'fig run \<Rightarrow> 'fig run" where
  "and_then a b = (case snd a of Some e \<Rightarrow> a | None \<Rightarrow> (fst a @ fst b, snd b))"

text \<open>Evaluate an expression that may raise, then go on with its value.\<close>

definition eval_then :: "exn + 'a \<Rightarrow> ('a \<Rightarrow> 'fig run) \<Rightarrow> 'fig run" where
  "eval_then x k = (case x of Inl e \<Rightarrow> ([], Some e) | Inr v \<Rightarrow> k v)"

text \<open>\<^verbatim>\<open>try: v = ... except ValueError: v = None\<close>\<close>

definition except_ValueError :: "exn + pyval \<Rightarrow> exn + pyval" where
  "except_ValueError x = (case x of Inl ValueError \<Rightarrow> Inr PNone | _ \<Rightarrow> x)"

section \<open>The functions of \<^verbatim>\<open>overview.py\<close>\<close>

definition add_version_gadget :: "container \<Rightarrow> SolverBlock option \<Rightarrow> 'fig run" where
  "add_version_gadget st' solver_block =
     (case solver_block of
        None \<Rightarrow>
          emit [Metric st' \<lparr>label = ''CP-SAT Version'', shown = PStr ''N/A'',
                            delta = None, delta_color = Some ''inverse''\<rparr>]
      | Some b \<Rightarrow>
          (case get_parsed_version b of (major, minor, patch) \<Rightarrow>
             if major < 9 \<or> (major = 9 \<and> minor < 10) then
               emit [Metric st' \<lparr>label = ''CP-SAT Version'', shown = PStr (get_version b),
                                 delta = Some ''outdated'', delta_color = Some ''inverse''\<rparr>]
             else
               emit [Metric st' \<lparr>label = ''CP-SAT Version'', shown = PStr (get_version b),
                                 delta = None, delta_color = None\<rparr>]))"

definition py_int_or_none :: "int option \<Rightarrow> pyval" where
  "py_int_or_none x = (case x of None \<Rightarrow> PNone | Some n \<Rightarrow> PInt n)"

definition add_number_of_workers_gadget :: "container \<Rightarrow> SolverBlock option \<Rightarrow> 'fig run" where
  "add_number_of_workers_gadget st' solver_block =
     emit [Metric st' \<lparr>label = ''Number of workers'',
                       shown = (case solver_block of
                                  Some b \<Rightarrow> py_int_or_none (get_number_of_workers b)
                                | None \<Rightarrow> PNone),
                       delta = None, delta_color = None\<rparr>]"

text \<open>\<open>show_parameters\<close> draws on the page, whatever container it is given.\<close>

definition show_parameters :: "container \<Rightarrow> SolverBlock option \<Rightarrow> 'fig run" where
  "show_parameters st' solver_block =
     (case solver_block of
        None \<Rightarrow> emit []
      | Some b \<Rightarrow>
          if get_parameters b \<noteq> [] then
            emit [Markdown (''*CP-SAT was setup with the following parameters:*'' @ [CHR 0x0A]),
                  Json (get_parameters b),
                  Markdown ''*You can find more information about the parameters [here](https://github.com/google/or-tools/blob/stable/ortools/sat/sat_parameters.proto).*'']
          else emit [])"

definition seconds :: "pyfloat \<Rightarrow> pyval" where
  "seconds x = PStr (format_fixed 3 x @ ''s'')"

definition show_status_metrics ::
  "container \<Rightarrow> (string \<rightharpoonup> pyval) \<Rightarrow> 'fig SearchProgressBlock option \<Rightarrow> 'fig run" where
  "show_status_metrics st' response search_progress_block =
     and_then (emit [Columns st' 3])
       (eval_then (getitem response ''status'') (\<lambda>status.
          and_then (emit [Metric (Col 1) \<lparr>label = ''Status'', shown = status,
                                          delta = None, delta_color = None\<rparr>])
            (eval_then
               (case response ''walltime'' of
                  Some w \<Rightarrow> map_sum id seconds (py_float w)
                | None \<Rightarrow> Inr PNone)
               (\<lambda>time.
                  emit [Metric (Col 2) \<lparr>label = ''Time'', shown = time,
                                        delta = None, delta_color = None\<rparr>,
                        Metric (Col 3) \<lparr>label = ''Presolve'',
                                        shown = (case search_progress_block of
                                                   Some b \<Rightarrow> seconds (get_presolve_time b)
                                                 | None \<Rightarrow> PNone),
                                        delta = None, delta_color = None\<rparr>]))))"

definition show_model_metrics :: "container \<Rightarrow> InitialModelBlock option \<Rightarrow> 'fig run" where
  "show_model_metrics st' initial_model_block =
     emit [Columns st' 3,
           Metric (Col 1) \<lparr>label = ''Variables'',
                           shown = (case initial_model_block of
                                      Some b \<Rightarrow> PInt (get_num_variables b) | None \<Rightarrow> PNone),
                           delta = None, delta_color = None\<rparr>,
           Metric (Col 2) \<lparr>label = ''Constraints'',
                           shown = (case initial_model_block of
                                      Some b \<Rightarrow> PInt (get_num_constraints b) | None \<Rightarrow> PNone),
                           delta = None, delta_color = None\<rparr>,
           Metric (Col 3) \<lparr>label = ''Type'',
                           shown = (case initial_model_block of
                                      Some b \<Rightarrow> PStr (if is_optimization b then ''Optimization''
                                                       else ''Satisfaction'')
                                    | None \<Rightarrow> PNone),
                           delta = None, delta_color = None\<rparr>]"

text \<open>\<^verbatim>\<open>float(response[key])\<close> inside \<^verbatim>\<open>try ... except ValueError\<close>.\<close>

definition float_field :: "(string \<rightharpoonup> pyval) \<Rightarrow> string \<Rightarrow> exn + pyval" where
  "float_field response key =
     except_ValueError
       (case getitem response key of Inl e \<Rightarrow> Inl e | Inr v \<Rightarrow> map_sum id PFloat (py_float v))"

definition percent :: "pyfloat option \<Rightarrow> pyval" where
  "percent gap = (case gap of Some g \<Rightarrow> PStr (format_fixed 2 g @ ''%'') | None \<Rightarrow> PNone)"

text \<open>
  \<^verbatim>\<open>gap = response_block.get_gap() if response_block else None\<close> inside
  \<^verbatim>\<open>try ... except ValueError: gap = None\<close>.
\<close>

definition gap_of :: "ResponseBlock option \<Rightarrow> exn + pyfloat option" where
  "gap_of response_block =
     (case response_block of
        None \<Rightarrow> Inr None
      | Some b \<Rightarrow> (case get_gap b of Inl ValueError \<Rightarrow> Inr None | r \<Rightarrow> r))"

definition show_objective_metrics ::
  "container \<Rightarrow> (string \<rightharpoonup> pyval) \<Rightarrow> ResponseBlock option \<Rightarrow> 'fig run" where
  "show_objective_metrics st' response response_block =
     and_then (emit [Columns st' 3])
       (eval_then (float_field response ''objective'') (\<lambda>obj.
          and_then (emit [Metric (Col 1) \<lparr>label = ''Objective'', shown = obj,
                                          delta = None, delta_color = None\<rparr>])
            (eval_then (float_field response ''best_bound'') (\<lambda>bound.
               and_then (emit [Metric (Col 2) \<lparr>label = ''Best bound'', shown = bound,
                                               delta = None, delta_color = None\<rparr>])
                 (eval_then (gap_of response_block) (\<lambda>gap.
                    emit [Metric (Col 3) \<lparr>label = ''Gap'', shown = percent gap,
                                          delta = None, delta_color = None\<rparr>]))))))"

text \<open>\<^verbatim>\<open>"status" in response and response["status"] in ("OPTIMAL", "FEASIBLE")\<close>\<close>

definition status_is_solved :: "(string \<rightharpoonup> pyval) \<Rightarrow> bool" where
  "status_is_solved response =
     (case response ''status'' of
        Some v \<Rightarrow> v = PStr ''OPTIMAL'' \<or> v = PStr ''FEASIBLE''
      | None \<Rightarrow> False)"

definition show_search_plot ::
  "container \<Rightarrow> (string \<rightharpoonup> pyval) \<Rightarrow> 'fig SearchProgressBlock option \<Rightarrow>
     InitialModelBlock option \<Rightarrow> 'fig run" where
  "show_search_plot st' response search_progress_block initial_model_block =
     (if status_is_solved response then
        (case search_progress_block of
           None \<Rightarrow> emit []
         | Some sp \<Rightarrow>
             (case initial_model_block of
                None \<Rightarrow> emit []
              | Some im \<Rightarrow>
                  if is_optimization im then
                    and_then (emit [AsPlotly])
                      (case as_plotly sp of
                         Some fig \<Rightarrow> emit [PlotlyChart fig]
                       | None \<Rightarrow> emit [])
                  else emit []))
      else emit [])"

subsection \<open>The page\<close>

definition join_lines :: "string list \<Rightarrow> string" where
  "join_lines ls = (case ls of [] \<Rightarrow> [] | l # rest \<Rightarrow> foldl (\<lambda>acc x. acc @ [CHR 0x0A] @ x) l rest)"

text \<open>\<^verbatim>\<open>s.replace(c, new)\<close> for a pattern of one character.\<close>

definition replace_char :: "char \<Rightarrow> string \<Rightarrow> string \<Rightarrow> string" where
  "replace_char c new s = concat (map (\<lambda>x. if x = c then new else [x]) s)"

definition comment_text :: "string list \<Rightarrow> string" where
  "comment_text cs =
     replace_char CHR '']'' ([CHR ''*'', CHR 0x5C, CHR '']''])
       (replace_char CHR ''['' ([CHR 0x5C, CHR ''['', CHR ''*''])
          (replace_char (CHR 0x5C) [] (join_lines cs)))"

definition incomplete_log_message :: "string \<Rightarrow> string" where
  "incomplete_log_message ke =
     ''Error parsing information. Log seems to be incomplete: '' @ ke @
     ''. Make sure you enter the full log without any modifications. The parser is sensitive to new lines.''"

text \<open>\<^verbatim>\<open>try: ... except KeyError as ke: st.error(...)\<close>; any other exception goes on.\<close>

definition except_KeyError :: "'fig run \<Rightarrow> 'fig run" where
  "except_KeyError r =
     (case snd r of
        Some (KeyError ke) \<Rightarrow> (fst r @ [Error (incomplete_log_message ke)], None)
      | _ \<Rightarrow> r)"

definition response_dict :: "ResponseBlock option \<Rightarrow> (string \<rightharpoonup> pyval)" where
  "response_dict response_block = (case response_block of Some b \<Rightarrow> to_dict b | None \<Rightarrow> Map.empty)"

definition show_presolve_note :: "PresolveSummaryBlock option \<Rightarrow> 'fig run" where
  "show_presolve_note presolve =
     (case presolve of
        Some b \<Rightarrow> if is_solved_by_presolve b then emit [Info ''The model was solved by presolve.'']
                  else emit []
      | None \<Rightarrow> emit [])"

definition overview_body :: "'fig LogParser \<Rightarrow> 'fig run" where
  "overview_body parser =
     (let solver_block = solver_block_or_none parser;
          initial_model_block = initial_model_block_or_none parser;
          search_progress_block = search_progress_block_or_none parser;
          response_block = response_block_or_none parser;
          response = response_dict response_block in
      and_then (emit [Columns Page 2])
     (and_then (add_version_gadget (Col 1) solver_block)
     (and_then (add_number_of_workers_gadget (Col 2) solver_block)
     (and_then (show_parameters Page solver_block)
     (and_then (show_status_metrics Page response search_progress_block)
     (and_then (show_model_metrics Page initial_model_block)
     (and_then (show_objective_metrics Page response response_block)
     (and_then (show_search_plot Page response search_progress_block initial_model_block)
               (show_presolve_note (presolve_summary_block_or_none parser))))))))))"

definition show_overview :: "'fig LogParser \<Rightarrow> 'fig run" where
  "show_overview parser =
     and_then
       (emit (Subheader ''Overview'' #
              (if comments parser \<noteq> [] then [ChatMessage ''user'' (comment_text (comments parser))]
               else [])))
       (except_KeyError (overview_body parser))"

section \<open>Reading a run\<close>

text \<open>The metrics of a run in the order drawn, and the first metric with a given label.\<close>

fun metrics_of :: "'fig event list \<Rightarrow> metric list" where
  "metrics_of [] = []"
| "metrics_of (Metric c m # es) = m # metrics_of es"
| "metrics_of (e # es) = metrics_of es"

definition metric_named :: "string \<Rightarrow> 'fig event list \<Rightarrow> metric option" where
  "metric_named l es = find (\<lambda>m. label m = l) (metrics_of es)"

fun is_chat :: "'fig event \<Rightarrow> bool" where
  "is_chat (ChatMessage who txt) = True"
| "is_chat e = False"

text \<open>What the page draws before the first metric.\<close>

definition page_head :: "'fig LogParser \<Rightarrow> 'fig event list" where
  "page_head parser =
     Subheader ''Overview'' #
     (if comments parser \<noteq> [] then [ChatMessage ''user'' (comment_text (comments parser))] else []) @
     [Columns Page 2]"

text \<open>The text of \<^verbatim>\<open>KeyError('status')\<close>.\<close>

definition status_key_error :: string where
  "status_key_error = [CHR 0x27] @ ''status'' @ [CHR 0x27]"

subsection \<open>Example logs\<close>

definition no_blocks :: "'fig LogParser" where
  "no_blocks = \<lparr>comments = [], solver_block_or_none = None, initial_model_block_or_none = None,
                search_progress_block_or_none = None, response_block_or_none = None,
                presolve_summary_block_or_none = None\<rparr>"

definition solver_9_9_3 :: SolverBlock where
  "solver_9_9_3 = \<lparr>get_parsed_version = (9, 9, 3), get_version = ''9.9.3'',
                    get_number_of_workers = Some 8, get_parameters = []\<rparr>"

definition status_missing_log :: "unit LogParser" where
  "status_missing_log =
     no_blocks\<lparr>response_block_or_none :=
       Some \<lparr>to_dict = [''walltime'' \<mapsto> PStr ''1.5''], get_gap = Inr None\<rparr>\<rparr>"

definition optimal_block :: ResponseBlock where
  "optimal_block =
     \<lparr>to_dict = [''status'' \<mapsto> PStr ''OPTIMAL'', ''objective'' \<mapsto> PStr ''10'',
                 ''best_bound'' \<mapsto> PStr ''10''],
      get_gap = Inr (Some (Finite False 0))\<rparr>"

definition bad_walltime_log :: "unit LogParser" where
  "bad_walltime_log =
     no_blocks\<lparr>response_block_or_none :=
       Some (optimal_block\<lparr>to_dict := (to_dict optimal_block)(''walltime'' \<mapsto> PStr ''abc'')\<rparr>)\<rparr>"

definition inf_objective_block :: ResponseBlock where
  "inf_objective_block =
     \<lparr>to_dict = [''status'' \<mapsto> PStr ''UNKNOWN'', ''objective'' \<mapsto> PStr ''inf'',
                 ''best_bound'' \<mapsto> PStr ''inf''],
      get_gap = Inr None\<rparr>"


definition na_objective_block :: ResponseBlock where
  "na_objective_block =
     \<lparr>to_dict = [''status'' \<mapsto> PStr ''UNKNOWN'', ''objective'' \<mapsto> PStr ''NA'',
                 ''best_bound'' \<mapsto> PStr ''NA''],
      get_gap = Inr None\<rparr>"

definition progress_without_data :: "unit SearchProgressBlock" where
  "progress_without_data = \<lparr>get_presolve_time = Finite False 0, as_plotly = None\<rparr>"

definition progress_with_data :: "unit SearchProgressBlock" where
  "progress_with_data = \<lparr>get_presolve_time = Finite False (1 / 8), as_plotly = Some ()\<rparr>"

definition optimization_model :: InitialModelBlock where
  "optimization_model = \<lparr>get_num_variables = 3, get_num_constraints = 2, is_optimization = True\<rparr>"

definition satisfaction_model :: InitialModelBlock where
  "satisfaction_model = \<lparr>get_num_variables = 3, get_num_constraints = 2, is_optimization = False\<rparr>"

subsection \<open>The comment text in the words of the specification\<close>

text \<open>
  The lines joined by newlines; then every backslash deleted; then every \<^verbatim>\<open>[\<close>
  replaced by backslash, \<^verbatim>\<open>[\<close>, \<^verbatim>\<open>*\<close> and every \<^verbatim>\<open>]\<close> by \<^verbatim>\<open>*\<close>, backslash,
  \<^verbatim>\<open>]\<close>, in one pass over the characters.
\<close>

fun join_with_newlines :: "string list \<Rightarrow> string" where
  "join_with_newlines [] = []"
| "join_with_newlines [l] = l"
| "join_with_newlines (l # ls) = l @ [CHR 0x0A] @ join_with_newlines ls"

definition escape_bracket :: "char \<Rightarrow> string" where
  "escape_bracket c =
     (if c = CHR ''['' then [CHR 0x5C, CHR ''['', CHR ''*'']
      else if c = CHR '']'' then [CHR ''*'', CHR 0x5C, CHR '']'']
      else [c])"

definition escaped_comment :: "string list \<Rightarrow> string" where
  "escaped_comment ls =
     concat (map escape_bracket (filter (\<lambda>c. c \<noteq> CHR 0x5C) (join_with_newlines ls)))"

declare bit_length.simps [simp del]
declare show_int.simps [simp del]

section \<open>Properties\<close>

subsection \<open>Sequencing\<close>

lemma and_then_emit: "and_then (emit es) b = (es @ fst b, snd b)"
  by (simp add: and_then_def emit_def)

lemma and_then_ok: "and_then (es, None) b = (es @ fst b, snd b)"
  by (simp add: and_then_def)

lemma and_then_raised: "and_then (es, Some e) b = (es, Some e)"
  by (simp add: and_then_def)

lemma fst_and_then: "fst (and_then a b) = fst a @ (if snd a = None then fst b else [])"
  by (simp add: and_then_def split: option.splits)

lemma fst_except_KeyError: "\<exists>t. fst (except_KeyError r) = fst r @ t"
  by (simp add: except_KeyError_def split: option.splits exn.splits)

lemma returns_pair: "snd r = None \<Longrightarrow> r = (fst r, None)"
  by (cases r) simp

subsection \<open>Looking up a metric\<close>

lemma metrics_of_append: "metrics_of (es @ fs) = metrics_of es @ metrics_of fs"
  by (induction es rule: metrics_of.induct) simp_all

lemma metric_named_skip: "metrics_of pre = [] \<Longrightarrow> metric_named l (pre @ es) = metric_named l es"
  by (simp add: metric_named_def metrics_of_append)

lemma find_hit: "find P xs = Some x \<Longrightarrow> find P (xs @ ys) = Some x"
  by (induction xs) (simp_all split: if_splits)

lemma metric_named_hit: "metric_named l es = Some m \<Longrightarrow> metric_named l (es @ fs) = Some m"
  by (simp add: metric_named_def metrics_of_append find_hit)

lemma find_miss: "find P xs = None \<Longrightarrow> find P (xs @ ys) = find P ys"
  by (induction xs) (simp_all split: if_splits)

lemma metric_named_miss: "metric_named l es = None \<Longrightarrow> metric_named l (es @ fs) = metric_named l fs"
  by (simp add: metric_named_def metrics_of_append find_miss)

subsection \<open>The two gadgets at the top of the page\<close>

lemma snd_add_version_gadget: "snd (add_version_gadget c sb) = None"
  by (simp add: add_version_gadget_def emit_def split: option.splits prod.splits)

lemma snd_add_number_of_workers_gadget: "snd (add_number_of_workers_gadget c sb) = None"
  by (simp add: add_number_of_workers_gadget_def emit_def)

lemma snd_show_parameters: "snd (show_parameters c sb) = None"
  by (simp add: show_parameters_def emit_def split: option.splits)

lemma metrics_of_page_head: "metrics_of (page_head parser) = []"
  by (simp add: page_head_def)

lemma overview_starts:
  "\<exists>rest. fst (show_overview parser) =
      page_head parser
      @ fst (add_version_gadget (Col 1) (solver_block_or_none parser) :: 'fig run)
      @ fst (add_number_of_workers_gadget (Col 2) (solver_block_or_none parser) :: 'fig run)
      @ rest" for parser :: "'fig LogParser"
proof -
  obtain t where t: "fst (except_KeyError (overview_body parser)) = fst (overview_body parser) @ t"
    using fst_except_KeyError by blast
  show ?thesis
    unfolding show_overview_def and_then_emit fst_conv t page_head_def
    by (simp add: overview_body_def Let_def and_then_emit fst_and_then
        snd_add_version_gadget snd_add_number_of_workers_gadget)
qed

lemma version_metric:
  "metric_named ''CP-SAT Version'' (fst (add_version_gadget c (Some b) :: 'fig run)) =
     Some \<lparr>label = ''CP-SAT Version'', shown = PStr (get_version b),
           delta = (if fst (get_parsed_version b) < 9 \<or>
                       (fst (get_parsed_version b) = 9 \<and> fst (snd (get_parsed_version b)) < 10)
                    then Some ''outdated'' else None),
           delta_color = (if fst (get_parsed_version b) < 9 \<or>
                       (fst (get_parsed_version b) = 9 \<and> fst (snd (get_parsed_version b)) < 10)
                    then Some ''inverse'' else None)\<rparr>"
  by (simp add: add_version_gadget_def emit_def metric_named_def split: prod.splits)

lemma version_metric_no_workers:
  "metric_named ''Number of workers'' (fst (add_version_gadget c sb :: 'fig run)) = None"
  by (simp add: add_version_gadget_def emit_def metric_named_def split: prod.splits option.splits)

lemma workers_metric:
  "metric_named ''Number of workers'' (fst (add_number_of_workers_gadget c sb :: 'fig run)) =
     Some \<lparr>label = ''Number of workers'',
           shown = (case sb of None \<Rightarrow> PNone | Some b \<Rightarrow> py_int_or_none (get_number_of_workers b)),
           delta = None, delta_color = None\<rparr>"
  by (simp add: add_number_of_workers_gadget_def emit_def metric_named_def split: option.splits)

text \<open>
  C4. When a solver block is present and its parsed version is (major, minor, patch), the
  page shows the metric "CP-SAT Version" with the version string of the block, and the
  metric carries the delta "outdated" exactly when major < 9, or major = 9 and
  minor < 10. The patch number plays no part.
\<close>

theorem version_outdated_iff:
  fixes parser :: "'fig LogParser"
  assumes "solver_block_or_none parser = Some b"
    and "get_parsed_version b = (major, minor, patch)"
  shows "\<exists>m. metric_named ''CP-SAT Version'' (fst (show_overview parser)) = Some m \<and>
             shown m = PStr (get_version b) \<and>
             (delta m = Some ''outdated'') = (major < 9 \<or> (major = 9 \<and> minor < 10))"
proof -
  obtain rest where r: "fst (show_overview parser) =
      page_head parser
      @ fst (add_version_gadget (Col 1) (solver_block_or_none parser) :: 'fig run)
      @ fst (add_number_of_workers_gadget (Col 2) (solver_block_or_none parser) :: 'fig run)
      @ rest"
    using overview_starts by blast
  have "metric_named ''CP-SAT Version'' (fst (show_overview parser)) =
          metric_named ''CP-SAT Version'' (fst (add_version_gadget (Col 1) (Some b) :: 'fig run))"
    unfolding r assms(1)
    by (simp only: metric_named_skip [OF metrics_of_page_head] metric_named_hit [OF version_metric]
        version_metric)
  then show ?thesis
    by (simp add: version_metric assms(2))
qed

theorem version_outdated_iff_witness:
  "\<exists>m. metric_named ''CP-SAT Version''
         (fst (show_overview (no_blocks\<lparr>solver_block_or_none := Some solver_9_9_3\<rparr> :: unit LogParser)))
         = Some m \<and>
       shown m = PStr ''9.9.3'' \<and> delta m = Some ''outdated''"
  using version_outdated_iff [of "no_blocks\<lparr>solver_block_or_none := Some solver_9_9_3\<rparr> :: unit LogParser"
      solver_9_9_3 9 9 3]
  by (simp add: no_blocks_def solver_9_9_3_def)

text \<open>The versions named by the specification: (9, 9, x) is outdated, (9, 10, 0) and (10, 0, 0) are not.\<close>

lemma version_examples:
  "map delta (metrics_of (fst (add_version_gadget c (Some (b\<lparr>get_parsed_version := (9, 9, x)\<rparr>)) :: 'fig run)))
     = [Some ''outdated'']"
  "map delta (metrics_of (fst (add_version_gadget c (Some (b\<lparr>get_parsed_version := (9, 10, 0)\<rparr>)) :: 'fig run)))
     = [None]"
  "map delta (metrics_of (fst (add_version_gadget c (Some (b\<lparr>get_parsed_version := (10, 0, 0)\<rparr>)) :: 'fig run)))
     = [None]"
  by (simp_all add: add_version_gadget_def emit_def)

text \<open>
  C8 (as amended). The page always shows the metric "Number of workers". Its value is
  None when there is no solver block, and the worker count that the block returns when
  there is one.
\<close>

theorem workers_metric_value:
  fixes parser :: "'fig LogParser"
  shows "metric_named ''Number of workers'' (fst (show_overview parser)) =
     Some \<lparr>label = ''Number of workers'',
           shown = (case solver_block_or_none parser of
                      None \<Rightarrow> PNone
                    | Some b \<Rightarrow> (case get_number_of_workers b of None \<Rightarrow> PNone | Some n \<Rightarrow> PInt n)),
           delta = None, delta_color = None\<rparr>"
proof -
  obtain rest where r: "fst (show_overview parser) =
      page_head parser
      @ fst (add_version_gadget (Col 1) (solver_block_or_none parser) :: 'fig run)
      @ fst (add_number_of_workers_gadget (Col 2) (solver_block_or_none parser) :: 'fig run)
      @ rest"
    using overview_starts by blast
  show ?thesis
    unfolding r
    by (simp only: metric_named_skip [OF metrics_of_page_head]
        metric_named_miss [OF version_metric_no_workers] metric_named_hit [OF workers_metric])
      (simp add: py_int_or_none_def split: option.splits)
qed

text \<open>
  C8 as stated fails: for a log without any block the value of the metric is None, not
  the string "N/A".
\<close>

theorem workers_not_NA:
  "map_option shown (metric_named ''Number of workers'' (fst (show_overview (no_blocks :: unit LogParser))))
     = Some PNone \<and> PNone \<noteq> PStr ''N/A''"
  by (simp add: show_overview_def overview_body_def no_blocks_def and_then_def emit_def
      add_version_gadget_def add_number_of_workers_gadget_def show_parameters_def
      show_status_metrics_def eval_then_def getitem_def response_dict_def except_KeyError_def
      metric_named_def)

subsection \<open>The status section\<close>

lemma show_status_metrics_no_status:
  "response ''status'' = None \<Longrightarrow>
   show_status_metrics c response sp = ([Columns c 3], Some (KeyError status_key_error))"
  by (simp add: show_status_metrics_def and_then_def emit_def eval_then_def getitem_def
      status_key_error_def)

lemma overview_without_status:
  fixes parser :: "'fig LogParser"
  assumes "response_dict (response_block_or_none parser) ''status'' = None"
  shows "show_overview parser =
     (page_head parser
      @ fst (add_version_gadget (Col 1) (solver_block_or_none parser) :: 'fig run)
      @ fst (add_number_of_workers_gadget (Col 2) (solver_block_or_none parser) :: 'fig run)
      @ fst (show_parameters Page (solver_block_or_none parser) :: 'fig run)
      @ [Columns Page 3, Error (incomplete_log_message status_key_error)], None)"
proof -
  let ?sb = "solver_block_or_none parser"
  have v: "(add_version_gadget (Col 1) ?sb :: 'fig run) = (fst (add_version_gadget (Col 1) ?sb), None)"
    by (rule returns_pair) (rule snd_add_version_gadget)
  have w: "(add_number_of_workers_gadget (Col 2) ?sb :: 'fig run) =
             (fst (add_number_of_workers_gadget (Col 2) ?sb), None)"
    by (rule returns_pair) (rule snd_add_number_of_workers_gadget)
  have p: "(show_parameters Page ?sb :: 'fig run) = (fst (show_parameters Page ?sb), None)"
    by (rule returns_pair) (rule snd_show_parameters)
  have body: "overview_body parser =
     ([Columns Page 2] @ fst (add_version_gadget (Col 1) ?sb :: 'fig run)
      @ fst (add_number_of_workers_gadget (Col 2) ?sb :: 'fig run)
      @ fst (show_parameters Page ?sb :: 'fig run) @ [Columns Page 3],
      Some (KeyError status_key_error))"
    unfolding overview_body_def Let_def
      show_status_metrics_no_status [of "response_dict (response_block_or_none parser)", OF assms]
    by (subst v, subst w, subst p) (simp add: and_then_emit and_then_ok and_then_raised)
  show ?thesis
    unfolding show_overview_def body
    by (simp add: and_then_emit except_KeyError_def page_head_def)
qed

text \<open>
  C1 (as amended). For a log without any of the five blocks the page draws the heading,
  the comment if there is one, the version metric with the value "N/A" and the worker
  metric with the value None. Reading the status from the empty response then raises
  KeyError('status'), which the page catches: it shows the message that the log seems to
  be incomplete, draws no further metric, and returns without an exception.
\<close>

theorem zero_blocks_report:
  fixes parser :: "'fig LogParser"
  assumes "solver_block_or_none parser = None"
    and "initial_model_block_or_none parser = None"
    and "search_progress_block_or_none parser = None"
    and "response_block_or_none parser = None"
    and "presolve_summary_block_or_none parser = None"
  shows "show_overview parser =
     (Subheader ''Overview'' #
      (if comments parser \<noteq> [] then [ChatMessage ''user'' (comment_text (comments parser))] else []) @
      [Columns Page 2,
       Metric (Col 1) \<lparr>label = ''CP-SAT Version'', shown = PStr ''N/A'', delta = None,
                       delta_color = Some ''inverse''\<rparr>,
       Metric (Col 2) \<lparr>label = ''Number of workers'', shown = PNone, delta = None,
                       delta_color = None\<rparr>,
       Columns Page 3,
       Error (incomplete_log_message status_key_error)], None)"
proof -
  have "response_dict (response_block_or_none parser) ''status'' = None"
    by (simp add: assms(4) response_dict_def)
  from overview_without_status [OF this] show ?thesis
    by (simp add: assms(1) page_head_def add_version_gadget_def add_number_of_workers_gadget_def
        show_parameters_def emit_def)
qed

theorem zero_blocks_report_witness:
  "show_overview (no_blocks\<lparr>comments := [''run 1'']\<rparr> :: unit LogParser) =
     ([Subheader ''Overview'', ChatMessage ''user'' ''run 1'', Columns Page 2,
       Metric (Col 1) \<lparr>label = ''CP-SAT Version'', shown = PStr ''N/A'', delta = None,
                       delta_color = Some ''inverse''\<rparr>,
       Metric (Col 2) \<lparr>label = ''Number of workers'', shown = PNone, delta = None,
                       delta_color = None\<rparr>,
       Columns Page 3,
       Error (incomplete_log_message status_key_error)], None)"
  using zero_blocks_report [of "no_blocks\<lparr>comments := [''run 1'']\<rparr> :: unit LogParser"]
  by (simp add: no_blocks_def comment_text_def join_lines_def replace_char_def)

text \<open>
  C1 as stated fails: for the log without blocks and without comments the page shows no
  status metric at all, and it ends with the error message.
\<close>

theorem zero_blocks_no_status_metric:
  "metric_named ''Status'' (fst (show_overview (no_blocks :: unit LogParser))) = None \<and>
   last (fst (show_overview (no_blocks :: unit LogParser))) =
     Error (incomplete_log_message status_key_error)"
  by (simp add: show_overview_def overview_body_def no_blocks_def and_then_def emit_def
      add_version_gadget_def add_number_of_workers_gadget_def show_parameters_def
      show_status_metrics_def eval_then_def getitem_def response_dict_def except_KeyError_def
      status_key_error_def metric_named_def)

text \<open>
  C3 (as amended). When a response block is present and its dictionary has no status,
  reading the status raises KeyError('status'). The page catches it and shows the message
  that names the key; no exception leaves the page. What was drawn before stays: the
  heading, the comment, the version and worker metrics and the parameters. No other
  metric, no chart and no presolve note is drawn.
\<close>

theorem missing_status_report:
  fixes parser :: "'fig LogParser"
  assumes "response_block_or_none parser = Some rb"
    and "to_dict rb ''status'' = None"
  shows "show_overview parser =
     (page_head parser
      @ fst (add_version_gadget (Col 1) (solver_block_or_none parser) :: 'fig run)
      @ fst (add_number_of_workers_gadget (Col 2) (solver_block_or_none parser) :: 'fig run)
      @ fst (show_parameters Page (solver_block_or_none parser) :: 'fig run)
      @ [Columns Page 3, Error (incomplete_log_message status_key_error)], None) \<and>
     map label (metrics_of (fst (show_overview parser))) = [''CP-SAT Version'', ''Number of workers'']"
proof -
  have "response_dict (response_block_or_none parser) ''status'' = None"
    by (simp add: assms response_dict_def)
  from overview_without_status [OF this] show ?thesis
    by (simp add: metrics_of_append metrics_of_page_head add_version_gadget_def
        add_number_of_workers_gadget_def show_parameters_def emit_def
        split: option.splits prod.splits)
qed

theorem missing_status_report_witness:
  "show_overview (status_missing_log\<lparr>solver_block_or_none := Some solver_9_9_3\<rparr>) =
     ([Subheader ''Overview'', Columns Page 2,
       Metric (Col 1) \<lparr>label = ''CP-SAT Version'', shown = PStr ''9.9.3'',
                       delta = Some ''outdated'', delta_color = Some ''inverse''\<rparr>,
       Metric (Col 2) \<lparr>label = ''Number of workers'', shown = PInt 8, delta = None,
                       delta_color = None\<rparr>,
       Columns Page 3,
       Error (incomplete_log_message status_key_error)], None)"
  using missing_status_report [of "status_missing_log\<lparr>solver_block_or_none := Some solver_9_9_3\<rparr>"
      "\<lparr>to_dict = [''walltime'' \<mapsto> PStr ''1.5''], get_gap = Inr None\<rparr>"]
  by (simp add: status_missing_log_def no_blocks_def solver_9_9_3_def page_head_def
      add_version_gadget_def add_number_of_workers_gadget_def show_parameters_def emit_def
      py_int_or_none_def)

text \<open>
  C3 as stated fails: two metrics are already drawn when the page meets the missing
  status.
\<close>

theorem missing_status_partial_output:
  "map label (metrics_of (fst (show_overview status_missing_log))) =
     [''CP-SAT Version'', ''Number of workers''] \<and>
   last (fst (show_overview status_missing_log)) = Error (incomplete_log_message status_key_error)"
  by (simp add: show_overview_def overview_body_def no_blocks_def and_then_def emit_def
      add_version_gadget_def add_number_of_workers_gadget_def show_parameters_def
      show_status_metrics_def eval_then_def getitem_def response_dict_def except_KeyError_def
      status_key_error_def status_missing_log_def)

lemma float_of_string_abc: "float_of_string ''abc'' = None"
  by (simp add: float_of_string_def py_strip_def is_space_def split_sign_def
     to_lower_def parse_decimal_def is_digit_def)

text \<open>
  C2. The code at the failing input: the response is OPTIMAL with the wall time "abc".
  The status metric is drawn, then \<^verbatim>\<open>float("abc")\<close> raises ValueError, which nothing
  catches: it leaves the page.
\<close>

theorem bad_walltime_escapes:
  "show_overview bad_walltime_log =
     ([Subheader ''Overview'', Columns Page 2,
       Metric (Col 1) \<lparr>label = ''CP-SAT Version'', shown = PStr ''N/A'', delta = None,
                       delta_color = Some ''inverse''\<rparr>,
       Metric (Col 2) \<lparr>label = ''Number of workers'', shown = PNone, delta = None,
                       delta_color = None\<rparr>,
       Columns Page 3,
       Metric (Col 1) \<lparr>label = ''Status'', shown = PStr ''OPTIMAL'', delta = None,
                       delta_color = None\<rparr>], Some ValueError)"
  by (simp add: show_overview_def overview_body_def no_blocks_def and_then_def emit_def
      add_version_gadget_def add_number_of_workers_gadget_def show_parameters_def
      show_status_metrics_def eval_then_def getitem_def response_dict_def except_KeyError_def
      bad_walltime_log_def optimal_block_def py_float_def float_of_string_abc)

subsection \<open>The objective section\<close>

lemma show_objective_metrics_cases:
  "show_objective_metrics c response rb =
     (case float_field response ''objective'' of
        Inl e \<Rightarrow> ([Columns c 3], Some e)
      | Inr obj \<Rightarrow>
          (case float_field response ''best_bound'' of
             Inl e \<Rightarrow>
               ([Columns c 3,
                 Metric (Col 1) \<lparr>label = ''Objective'', shown = obj, delta = None, delta_color = None\<rparr>],
                Some e)
           | Inr bound \<Rightarrow>
               (case gap_of rb of
                  Inl e \<Rightarrow>
                    ([Columns c 3,
                      Metric (Col 1) \<lparr>label = ''Objective'', shown = obj, delta = None, delta_color = None\<rparr>,
                      Metric (Col 2) \<lparr>label = ''Best bound'', shown = bound, delta = None, delta_color = None\<rparr>],
                     Some e)
                | Inr gap \<Rightarrow>
                    ([Columns c 3,
                      Metric (Col 1) \<lparr>label = ''Objective'', shown = obj, delta = None, delta_color = None\<rparr>,
                      Metric (Col 2) \<lparr>label = ''Best bound'', shown = bound, delta = None, delta_color = None\<rparr>,
                      Metric (Col 3) \<lparr>label = ''Gap'', shown = percent gap, delta = None, delta_color = None\<rparr>],
                     None))))"
  by (simp add: show_objective_metrics_def and_then_def emit_def eval_then_def split: sum.splits)

lemma float_field_not_ValueError: "float_field response k \<noteq> Inl ValueError"
  by (simp add: float_field_def except_ValueError_def split: sum.splits exn.splits)

lemma gap_of_not_ValueError: "gap_of rb \<noteq> Inl ValueError"
  by (simp add: gap_of_def split: option.splits sum.splits exn.splits)

lemma float_field_rejected:
  "response k = Some (PStr s) \<Longrightarrow> float_of_string s = None \<Longrightarrow> float_field response k = Inr PNone"
  by (simp add: float_field_def getitem_def py_float_def except_ValueError_def)

lemma float_of_string_inf: "float_of_string ''inf'' = Some (Infinity False)"
  by (simp add: float_of_string_def py_strip_def is_space_def split_sign_def to_lower_def)

lemma float_of_string_NA: "float_of_string ''NA'' = None"
  by (simp add: float_of_string_def py_strip_def is_space_def split_sign_def
     to_lower_def parse_decimal_def is_digit_def)

text \<open>
  C5 (as amended). When the objective field of the response is a string that
  \<^verbatim>\<open>float\<close> rejects, the objective metric is drawn with the value None, and no
  ValueError leaves \<open>show_objective_metrics\<close>, whatever the other fields hold.
\<close>

theorem rejected_objective_unavailable:
  assumes "response ''objective'' = Some (PStr s)"
    and "float_of_string s = None"
  shows "metric_named ''Objective'' (fst (show_objective_metrics c response rb)) =
           Some \<lparr>label = ''Objective'', shown = PNone, delta = None, delta_color = None\<rparr> \<and>
         snd (show_objective_metrics c response rb) \<noteq> Some ValueError"
  using float_field_not_ValueError [of response "''best_bound''"] gap_of_not_ValueError [of rb]
  by (auto simp add: show_objective_metrics_cases
      float_field_rejected [of response "''objective''" s, OF assms] metric_named_def
      split: sum.splits)

theorem rejected_objective_unavailable_witness:
  "metric_named ''Objective''
     (fst (show_objective_metrics Page (to_dict na_objective_block) (Some na_objective_block) :: unit run)) =
     Some \<lparr>label = ''Objective'', shown = PNone, delta = None, delta_color = None\<rparr> \<and>
   snd (show_objective_metrics Page (to_dict na_objective_block) (Some na_objective_block) :: unit run)
     \<noteq> Some ValueError"
  using rejected_objective_unavailable [of "to_dict na_objective_block" "''NA''" Page
      "Some na_objective_block"]
  by (simp add: na_objective_block_def float_of_string_NA)

text \<open>
  C5 as stated fails at its own example: \<^verbatim>\<open>float("inf")\<close> is the float infinity, so the
  page shows the objective as that float and not as None.
\<close>

theorem inf_objective_is_shown:
  "map_option shown
     (metric_named ''Objective''
        (fst (show_overview (no_blocks\<lparr>response_block_or_none := Some inf_objective_block\<rparr>
                              :: unit LogParser)))) =
     Some (PFloat (Infinity False))"
  by (simp add: show_overview_def overview_body_def no_blocks_def and_then_def emit_def
      add_version_gadget_def add_number_of_workers_gadget_def show_parameters_def
      show_status_metrics_def show_model_metrics_def show_objective_metrics_cases
      eval_then_def getitem_def response_dict_def
      inf_objective_block_def py_float_def float_of_string_inf float_field_def
      except_ValueError_def gap_of_def metric_named_def Let_def except_KeyError_def
      show_search_plot_def status_is_solved_def show_presolve_note_def)

subsection \<open>The text of the gap\<close>

















subsection \<open>The search plot\<close>

lemma status_is_solved_iff:
  "status_is_solved response =
     (response ''status'' = Some (PStr ''OPTIMAL'') \<or> response ''status'' = Some (PStr ''FEASIBLE''))"
  by (simp add: status_is_solved_def split: option.splits)

text \<open>
  C6. \<open>show_search_plot\<close> draws the chart exactly when the status of the response is
  OPTIMAL or FEASIBLE, a search progress block is present and gives a chart (it has a
  data point), an initial model block is present and the model is an optimization model.
  Then it calls \<open>as_plotly\<close> and draws that chart. In every other case, also for a
  satisfaction model with search data, it draws nothing. It never raises.
\<close>

theorem search_plot_iff:
  "(if (response ''status'' = Some (PStr ''OPTIMAL'') \<or> response ''status'' = Some (PStr ''FEASIBLE''))
       \<and> (\<exists>sp. search_progress_block = Some sp \<and> as_plotly sp \<noteq> None)
       \<and> (\<exists>im. initial_model_block = Some im \<and> is_optimization im)
    then \<exists>sp fig. search_progress_block = Some sp \<and> as_plotly sp = Some fig \<and>
           show_search_plot c response search_progress_block initial_model_block =
             ([AsPlotly, PlotlyChart fig], None)
    else show_search_plot c response search_progress_block initial_model_block = ([], None)
       \<or> show_search_plot c response search_progress_block initial_model_block = ([AsPlotly], None))"
  by (auto simp add: show_search_plot_def status_is_solved_iff and_then_def emit_def
      split: option.splits)

text \<open>A satisfaction model with search data and the status OPTIMAL: nothing is drawn.\<close>

lemma satisfaction_model_no_plot:
  "show_search_plot Page (to_dict optimal_block) (Some progress_with_data) (Some satisfaction_model)
     = ([], None)"
  by (simp add: show_search_plot_def status_is_solved_def optimal_block_def
      progress_with_data_def satisfaction_model_def emit_def)

text \<open>An optimization model with search data and the status OPTIMAL: the chart is drawn.\<close>

lemma optimization_model_plot:
  "show_search_plot Page (to_dict optimal_block) (Some progress_with_data) (Some optimization_model)
     = ([AsPlotly, PlotlyChart ()], None)"
  by (simp add: show_search_plot_def status_is_solved_def optimal_block_def
      progress_with_data_def optimization_model_def and_then_def emit_def)

text \<open>
  C7 (as amended). When the search progress block has no data point, the chart is never
  drawn; the call of \<open>as_plotly\<close> itself is made whenever the status is OPTIMAL or
  FEASIBLE and the model is an optimization model, and its empty result is dropped.
\<close>

theorem no_data_no_chart:
  assumes "search_progress_block = Some sp"
    and "as_plotly sp = None"
  shows "(\<forall>fig. PlotlyChart fig \<notin> set (fst (show_search_plot c response search_progress_block
                                                initial_model_block))) \<and>
         (AsPlotly \<in> set (fst (show_search_plot c response search_progress_block initial_model_block)))
           = ((response ''status'' = Some (PStr ''OPTIMAL'') \<or>
               response ''status'' = Some (PStr ''FEASIBLE'')) \<and>
              (\<exists>im. initial_model_block = Some im \<and> is_optimization im))"
  using assms
  by (auto simp add: show_search_plot_def status_is_solved_iff and_then_def emit_def
      split: option.splits)

theorem no_data_no_chart_witness:
  "(\<forall>fig. PlotlyChart fig \<notin> set (fst (show_search_plot Page [''status'' \<mapsto> PStr ''FEASIBLE'']
                                          (Some progress_without_data) (Some optimization_model)))) \<and>
   AsPlotly \<in> set (fst (show_search_plot Page [''status'' \<mapsto> PStr ''FEASIBLE'']
                          (Some progress_without_data) (Some optimization_model)))"
  using no_data_no_chart [of "Some progress_without_data" progress_without_data Page
      "[''status'' \<mapsto> PStr ''FEASIBLE'']" "Some optimization_model"]
  by (simp add: progress_without_data_def optimization_model_def)

text \<open>
  C7 as stated fails: with the status OPTIMAL, an optimization model and a search progress
  block without data points, \<open>as_plotly\<close> is called.
\<close>

theorem as_plotly_called_without_data:
  "show_search_plot Page (to_dict optimal_block) (Some progress_without_data) (Some optimization_model)
     = ([AsPlotly], None)"
  by (simp add: show_search_plot_def status_is_solved_def optimal_block_def
      progress_without_data_def optimization_model_def and_then_def emit_def)

subsection \<open>The comment\<close>

lemma foldl_join: "foldl (\<lambda>acc x. acc @ CHR 0x0A # x) l rest = l @ concat (map ((#) (CHR 0x0A)) rest)"
  by (induction rest arbitrary: l) simp_all

lemma join_with_newlines_Cons:
  "join_with_newlines (l # rest) = l @ concat (map ((#) (CHR 0x0A)) rest)"
  by (induction rest arbitrary: l) simp_all

lemma join_lines_eq: "join_lines ls = join_with_newlines ls"
  by (cases ls) (simp_all add: join_lines_def foldl_join join_with_newlines_Cons)

lemma replace_char_append: "replace_char c new (s @ t) = replace_char c new s @ replace_char c new t"
  by (simp add: replace_char_def)

lemma delete_backslash: "replace_char (CHR 0x5C) [] s = filter (\<lambda>c. c \<noteq> CHR 0x5C) s"
  by (induction s) (simp_all add: replace_char_def)

lemma escape_two_passes:
  "replace_char CHR '']'' [CHR ''*'', CHR 0x5C, CHR '']'']
     (replace_char CHR ''['' [CHR 0x5C, CHR ''['', CHR ''*''] s) = concat (map escape_bracket s)"
proof (induction s)
  case Nil
  show ?case by (simp add: replace_char_def)
next
  case (Cons x s)
  have "replace_char CHR ''['' [CHR 0x5C, CHR ''['', CHR ''*''] (x # s) =
          (if x = CHR ''['' then [CHR 0x5C, CHR ''['', CHR ''*''] else [x]) @
          replace_char CHR ''['' [CHR 0x5C, CHR ''['', CHR ''*''] s"
    by (simp add: replace_char_def)
  then show ?case
    using Cons by (simp add: replace_char_append) (simp add: replace_char_def escape_bracket_def)
qed

lemma comment_text_eq: "comment_text cs = escaped_comment cs"
  by (simp add: comment_text_def escaped_comment_def delete_backslash escape_two_passes join_lines_eq)

lemma no_chat_and_then:
  "filter is_chat (fst a) = [] \<Longrightarrow> filter is_chat (fst b) = [] \<Longrightarrow>
   filter is_chat (fst (and_then a b)) = []"
  by (simp add: fst_and_then)

lemma no_chat_version: "filter is_chat (fst (add_version_gadget c sb)) = []"
  by (simp add: add_version_gadget_def emit_def split: option.splits prod.splits)

lemma no_chat_workers: "filter is_chat (fst (add_number_of_workers_gadget c sb)) = []"
  by (simp add: add_number_of_workers_gadget_def emit_def)

lemma no_chat_parameters: "filter is_chat (fst (show_parameters c sb)) = []"
  by (simp add: show_parameters_def emit_def split: option.splits)

lemma no_chat_status: "filter is_chat (fst (show_status_metrics c response sp)) = []"
  by (simp add: show_status_metrics_def and_then_def emit_def eval_then_def
      split: option.splits sum.splits)

lemma no_chat_model: "filter is_chat (fst (show_model_metrics c im)) = []"
  by (simp add: show_model_metrics_def emit_def)

lemma no_chat_objective: "filter is_chat (fst (show_objective_metrics c response rb)) = []"
  by (simp add: show_objective_metrics_cases split: sum.splits)

lemma no_chat_plot: "filter is_chat (fst (show_search_plot c response sp im)) = []"
  by (simp add: show_search_plot_def and_then_def emit_def split: option.splits)

lemma no_chat_presolve: "filter is_chat (fst (show_presolve_note ps)) = []"
  by (simp add: show_presolve_note_def emit_def split: option.splits)

lemma no_chat_emit_columns: "filter is_chat (fst (emit [Columns c n])) = []"
  by (simp add: emit_def)

lemma no_chat_body: "filter is_chat (fst (overview_body parser)) = []"
  unfolding overview_body_def Let_def
  by (intro no_chat_and_then no_chat_emit_columns no_chat_version no_chat_workers
      no_chat_parameters no_chat_status no_chat_model no_chat_objective no_chat_plot
      no_chat_presolve)

lemma no_chat_except: "filter is_chat (fst r) = [] \<Longrightarrow> filter is_chat (fst (except_KeyError r)) = []"
  by (simp add: except_KeyError_def split: option.splits exn.splits)

text \<open>
  C10. When the log has comment lines, the page shows, right after its heading, one chat
  message of the user whose text is the lines joined by newlines with every backslash
  deleted and then every \<^verbatim>\<open>[\<close> and \<^verbatim>\<open>]\<close> escaped. When the log has no comment
  line, the page shows no chat message at all. The three calls of \<^verbatim>\<open>replace\<close> in the
  code give the text that the specification describes.
\<close>

theorem comment_shown:
  "filter is_chat (fst (show_overview parser)) =
     (if comments parser = [] then []
      else [ChatMessage ''user'' (escaped_comment (comments parser))]) \<and>
   take 2 (fst (show_overview parser)) =
     (if comments parser = [] then [Subheader ''Overview'', Columns Page 2]
      else [Subheader ''Overview'', ChatMessage ''user'' (escaped_comment (comments parser))])"
proof
  show "filter is_chat (fst (show_overview parser)) =
     (if comments parser = [] then []
      else [ChatMessage ''user'' (escaped_comment (comments parser))])"
    by (simp add: show_overview_def and_then_emit no_chat_except [OF no_chat_body] comment_text_eq)
  obtain rest where "fst (show_overview parser) = page_head parser @ rest"
    using overview_starts [of parser] by blast
  then show "take 2 (fst (show_overview parser)) =
     (if comments parser = [] then [Subheader ''Overview'', Columns Page 2]
      else [Subheader ''Overview'', ChatMessage ''user'' (escaped_comment (comments parser))])"
    by (simp add: page_head_def comment_text_eq)
qed

text \<open>The escaping on an example: a bracketed tag, and a backslash that is dropped.\<close>

lemma comment_example:
  "escaped_comment [''see [1]'', [CHR ''a'', CHR 0x5C, CHR ''b'']] =
     ''see '' @ [CHR 0x5C] @ ''[*1*'' @ [CHR 0x5C] @ '']'' @ [CHR 0x0A] @ ''ab''"
  by (simp add: escaped_comment_def escape_bracket_def)

end
